theory Spec2Isabelle
  imports Main "HOL-Library.AList"
begin

section \<open>Python values\<close>

text \<open>
  The values that travel through \<^verbatim>\<open>cray/modules/cfs/cli.py\<close>: what click hands to
  an option callback, what \<^verbatim>\<open>json.loads\<close> returns and what a payload holds. A
  dictionary is an association list in insertion order with distinct keys; its keys are
  strings, as the keys of a JSON object and of a payload are. A \<open>char\<close> stands for one
  character with a code point below 256. Floating point numbers are not represented:
  the module passes numbers on and never looks into them.
\<close>

datatype pyval =
    PNone
  | PBool bool
  | PInt int
  | PStr string
  | PList "pyval list"
  | PDict "(string \<times> pyval) list"

text \<open>Python's truth value of an object, as \<^verbatim>\<open>if x:\<close> tests it.\<close>

fun truthy :: "pyval \<Rightarrow> bool" where
  "truthy PNone = False"
| "truthy (PBool b) = b"
| "truthy (PInt i) = (i \<noteq> 0)"
| "truthy (PStr s) = (s \<noteq> [])"
| "truthy (PList xs) = (xs \<noteq> [])"
| "truthy (PDict kvs) = (kvs \<noteq> [])"

subsection \<open>The string methods the module calls\<close>

text \<open>
  \<^verbatim>\<open>s.split(sep)\<close> for a separator of one character: the pieces between the
  separators, an empty piece where two separators meet or one stands at an end, and
  \<^verbatim>\<open>['']\<close> for the empty string.
\<close>

fun str_split :: "char \<Rightarrow> string \<Rightarrow> string list" where
  "str_split sep [] = [[]]"
| "str_split sep (c # cs) =
     (if c = sep then [] # str_split sep cs
      else (case str_split sep cs of
              [] \<Rightarrow> [[c]]
            | t # ts \<Rightarrow> (c # t) # ts))"

text \<open>
  \<^verbatim>\<open>str.isspace\<close> on one character below 256: tab to carriage return, the four
  separators 28 to 31, the space, NEL (133) and the no-break space (160).
\<close>

definition isspace :: "char \<Rightarrow> bool" where
  "isspace c =
     (let n = (of_char c :: nat)
      in (9 \<le> n \<and> n \<le> 13) \<or> (28 \<le> n \<and> n \<le> 32) \<or> n = 133 \<or> n = 160)"

text \<open>\<^verbatim>\<open>s.strip()\<close>: the string without its leading and trailing whitespace.\<close>

definition str_strip :: "string \<Rightarrow> string" where
  "str_strip s = rev (dropWhile isspace (rev (dropWhile isspace s)))"

text \<open>\<^verbatim>\<open>sep.join(pieces)\<close>, used to state what \<open>str_split\<close> returns.\<close>

fun str_join :: "string \<Rightarrow> string list \<Rightarrow> string" where
  "str_join sep [] = []"
| "str_join sep [t] = t"
| "str_join sep (t # u # ts) = t @ sep @ str_join sep (u # ts)"

section \<open>Option descriptors and option values\<close>

text \<open>
  An option descriptor, with the two attributes the module reads:
  \<^verbatim>\<open>param.name\<close> and \<^verbatim>\<open>param.payload_name\<close>.
\<close>

record param =
  param_name :: string
  payload_name :: string

text \<open>
  The wrapper every parsed option resolves to, the dictionary
  \<^verbatim>\<open>{"name": ..., "value": ...}\<close>; the value is \<open>PNone\<close> when the option was
  not supplied.
\<close>

record opt =
  name :: string
  "value" :: pyval

text \<open>
  Modelled from the spec: \<^verbatim>\<open>_opt_callback\<close> of \<^verbatim>\<open>cray.generator\<close>, which is
  not part of the sources at hand. The spec (4.4): it normalises every parsed
  command-line value into \<^verbatim>\<open>{name: <payload_name>, value: <parsed_value_or_None>}\<close>.
\<close>

definition opt_callback :: "'ctx \<Rightarrow> param \<Rightarrow> pyval \<Rightarrow> opt" where
  "opt_callback ctx p v = \<lparr>name = payload_name p, value = v\<rparr>"

section \<open>Errors, dictionaries and the world outside\<close>

text \<open>
  The exceptions that can leave the module. \<open>Exception\<close> is the one the module raises
  itself, with its message; \<open>JSONDecodeError\<close> carries the message of the decoder
  without the position; \<open>KeyError\<close> carries the missing key; the others carry their
  message. \<open>Unmodelled\<close> is not a
  Python exception: the decoder below answers it for a text whose value is not
  a \<open>pyval\<close>.
\<close>

datatype error =
    Exception string
  | JSONDecodeError string
  | TypeError string
  | OSError string
  | KeyError string
  | IndexError string
  | Unmodelled string

text \<open>
  The keyword arguments \<^verbatim>\<open>**kwargs\<close> of a command callback: the wrapper of every
  option that the callback does not name, by the option's parameter name.
\<close>

type_synonym kwargs = "(string \<times> opt) list"

text \<open>
  \<^verbatim>\<open>d[k]\<close> and \<^verbatim>\<open>del d[k]\<close> raise KeyError for a missing key. \<^verbatim>\<open>d[k] = v\<close> is
  \<^const>\<open>AList.update\<close>: the value is replaced in place, a new key goes to the end.
\<close>

definition getitem :: "(string \<times> 'v) list \<Rightarrow> string \<Rightarrow> error + 'v" where
  "getitem d k = (case map_of d k of None \<Rightarrow> Inl (KeyError k) | Some v \<Rightarrow> Inr v)"

definition delitem :: "(string \<times> 'v) list \<Rightarrow> string \<Rightarrow> error + (string \<times> 'v) list" where
  "delitem d k =
     (case map_of d k of None \<Rightarrow> Inl (KeyError k) | Some v \<Rightarrow> Inr (AList.delete k d))"

text \<open>A statement that may raise, followed by the rest of the block.\<close>

definition and_then :: "error + 'a \<Rightarrow> ('a \<Rightarrow> error + 'b) \<Rightarrow> error + 'b" where
  "and_then r f = (case r of Inl e \<Rightarrow> Inl e | Inr x \<Rightarrow> f x)"

text \<open>
  A command callback of the generator sends the request: it takes the keyword arguments
  and the world \<open>'w\<close> and returns its result, or the exception it raises, and the
  world after. The callbacks of the generator, \<^verbatim>\<open>json.loads\<close>, the file system
  (\<open>read_file p w\<close> is \<^verbatim>\<open>open(p, 'r').read()\<close> in the world \<open>w\<close>) and the constant
  \<^verbatim>\<open>FROM_FILE_TAG\<close> of \<^verbatim>\<open>cray.constants\<close> are parameters of the shims.
\<close>

section \<open>Configurations\<close>

text \<open>
  \<^verbatim>\<open>_decorator\<close> of \<^verbatim>\<open>create_configurations_shim(update_callback, patch_callback)\<close>.
\<close>

definition create_configurations_shim ::
  "(string \<Rightarrow> error + pyval) \<Rightarrow> (pyval \<Rightarrow> 'w \<Rightarrow> error + string) \<Rightarrow> string
    \<Rightarrow> ('id \<Rightarrow> kwargs \<Rightarrow> 'w \<Rightarrow> (error + 'r) \<times> 'w)
    \<Rightarrow> ('id \<Rightarrow> kwargs \<Rightarrow> 'w \<Rightarrow> (error + 'r) \<times> 'w)
    \<Rightarrow> 'id \<Rightarrow> opt \<Rightarrow> opt \<Rightarrow> kwargs \<Rightarrow> 'w \<Rightarrow> (error + 'r) \<times> 'w"
where
  "create_configurations_shim loads read_file FROM_FILE_TAG update_callback patch_callback
      configuration_id file update_branches kwargs w =
     (let file_name = value file in
      if truthy file_name then
        (case read_file (value file) w of
           Inl e \<Rightarrow> (Inl e, w)
         | Inr text \<Rightarrow>
             (case loads text of
                Inl e \<Rightarrow> (Inl e, w)
              | Inr data \<Rightarrow>
                  (let payload = data;
                       kwargs' = AList.update FROM_FILE_TAG
                                   \<lparr>name = FROM_FILE_TAG, value = payload\<rparr> kwargs
                   in update_callback configuration_id kwargs' w)))
      else if truthy (value update_branches) then
        patch_callback configuration_id kwargs w
      else
        (Inl (Exception ''Either --file or --update-branches must be set for updates''), w))"

section \<open>Sessions: the callback of \<^verbatim>\<open>--target-group\<close>\<close>

text \<open>
  The loop of \<^verbatim>\<open>_cb\<close>: for each pair \<^verbatim>\<open>(group, members)\<close> of the option's value
  it splits the members at the commas, strips every piece and appends
  \<^verbatim>\<open>{"name": group, "members": members}\<close> to \<^verbatim>\<open>groups\<close>.
\<close>

fun groups_loop :: "pyval list \<Rightarrow> (string \<times> string) list \<Rightarrow> pyval list" where
  "groups_loop groups [] = groups"
| "groups_loop groups ((grp, members) # rest) =
     (let members' = map (\<lambda>m. PStr (str_strip m)) (str_split CHR '','' members)
      in groups_loop
           (groups @ [PDict [(''name'', PStr grp), (''members'', PList members')]])
           rest)"

text \<open>
  \<^verbatim>\<open>_cb\<close> returns \<^verbatim>\<open>cb(ctx, param, groups)\<close> when a callback \<^verbatim>\<open>cb\<close> was given
  and the bare list otherwise; the two results have different types in HOL.
\<close>

datatype 'r cb_result = Plain pyval | Passed 'r

definition targets_callback ::
  "('ctx \<Rightarrow> param \<Rightarrow> pyval \<Rightarrow> 'r) option \<Rightarrow> 'ctx \<Rightarrow> param \<Rightarrow> (string \<times> string) list
    \<Rightarrow> 'r cb_result"
where
  "targets_callback cb ctx p v =
     (let groups = groups_loop [] v
      in case cb of
           Some f \<Rightarrow> Passed (f ctx p (PList groups))
         | None \<Rightarrow> Plain (PList groups))"

section \<open>Sessions: the payload of \<^verbatim>\<open>create\<close>\<close>

text \<open>
  The dictionary comprehension of both payload shims,
  \<^verbatim>\<open>{v['name']: v['value'] for _, v in kwargs.items() if v['value'] is not None}\<close>,
  as the loop that fills the dictionary.
\<close>

fun options_payload :: "(string \<times> pyval) list \<Rightarrow> kwargs \<Rightarrow> (string \<times> pyval) list" where
  "options_payload payload [] = payload"
| "options_payload payload ((k, v) # rest) =
     options_payload
       (if value v \<noteq> PNone then AList.update (name v) (value v) payload else payload)
       rest"

text \<open>
  The payload \<^verbatim>\<open>_decorator\<close> of \<^verbatim>\<open>create_sessions_shim(func)\<close> builds before
  it calls \<^verbatim>\<open>func\<close>.
\<close>

definition sessions_payload :: "opt \<Rightarrow> opt \<Rightarrow> kwargs \<Rightarrow> (string \<times> pyval) list" where
  "sessions_payload target_definition target_group kwargs =
     (let payload = options_payload [] kwargs
      in AList.update ''target''
           (PDict [(''definition'', value target_definition),
                   (''groups'', value target_group)])
           payload)"

definition create_sessions_shim ::
  "string \<Rightarrow> (kwargs \<Rightarrow> 'w \<Rightarrow> (error + 'r) \<times> 'w)
    \<Rightarrow> opt \<Rightarrow> opt \<Rightarrow> kwargs \<Rightarrow> 'w \<Rightarrow> (error + 'r) \<times> 'w"
where
  "create_sessions_shim FROM_FILE_TAG func target_definition target_group kwargs w =
     (let payload = sessions_payload target_definition target_group kwargs;
          kwargs' = AList.update FROM_FILE_TAG
                      \<lparr>name = FROM_FILE_TAG, value = PDict payload\<rparr> kwargs
      in func kwargs' w)"

section \<open>Components\<close>

text \<open>
  \<^verbatim>\<open>json.loads(x)\<close> for any object \<open>x\<close>: a string is decoded, anything else (bytes
  are not modelled) is a TypeError, whose message goes on with the name of the type.
\<close>

definition json_loads_object :: "(string \<Rightarrow> error + pyval) \<Rightarrow> pyval \<Rightarrow> error + pyval" where
  "json_loads_object loads x =
     (case x of
        PStr s \<Rightarrow> loads s
      | _ \<Rightarrow> Inl (TypeError ''the JSON object must be str, bytes or bytearray''))"

text \<open>
  The payload \<^verbatim>\<open>_decorator\<close> of \<^verbatim>\<open>create_components_shim(func)\<close> builds, or
  the exception of \<^verbatim>\<open>json.loads\<close>.
\<close>

definition components_payload ::
  "(string \<Rightarrow> error + pyval) \<Rightarrow> opt \<Rightarrow> kwargs \<Rightarrow> error + (string \<times> pyval) list"
where
  "components_payload loads state kwargs =
     (let payload = options_payload [] kwargs
      in if truthy (value state) then
           and_then (json_loads_object loads (value state))
             (\<lambda>parsed. Inr (AList.update ''state'' parsed payload))
         else Inr payload)"

definition create_components_shim ::
  "(string \<Rightarrow> error + pyval) \<Rightarrow> string \<Rightarrow> ('id \<Rightarrow> kwargs \<Rightarrow> 'w \<Rightarrow> (error + 'r) \<times> 'w)
    \<Rightarrow> 'id \<Rightarrow> opt \<Rightarrow> kwargs \<Rightarrow> 'w \<Rightarrow> (error + 'r) \<times> 'w"
where
  "create_components_shim loads FROM_FILE_TAG func component_id state kwargs w =
     (case components_payload loads state kwargs of
        Inl e \<Rightarrow> (Inl e, w)
      | Inr payload \<Rightarrow>
          (let kwargs' = AList.update FROM_FILE_TAG
                           \<lparr>name = FROM_FILE_TAG, value = PDict payload\<rparr> kwargs
           in func component_id kwargs' w))"

section \<open>The command tree and the patch phase\<close>

text \<open>
  The callback bound to a command: one of the generator's (they are told apart by a
  label of any type \<open>'f\<close>) or a shim of this module around others:
  \<open>Configurations_shim u p\<close> is \<^verbatim>\<open>create_configurations_shim(u, p)\<close>,
  \<open>Sessions_shim f\<close> is \<^verbatim>\<open>create_sessions_shim(f)\<close> and \<open>Components_shim f\<close> is
  \<^verbatim>\<open>create_components_shim(f)\<close>.
\<close>

datatype 'f callback =
    Generated 'f
  | Configurations_shim "'f callback" "'f callback"
  | Sessions_shim "'f callback"
  | Components_shim "'f callback"

record 'f command =
  params :: "param list"
  callback :: "'f callback"

text \<open>
  Modelled from the spec: the tree that \<^verbatim>\<open>generate\<close> of \<^verbatim>\<open>cray.generator\<close>
  returns, which is not part of the sources at hand. The spec (2, 3): a command tree
  keyed by API version, then by resource name, then by sub-action, whose leaves have an
  ordered list of option descriptors and a callback. Each level is the dictionary
  \<^verbatim>\<open>commands\<close> of a group.
\<close>

type_synonym 'f commands = "(string \<times> 'f command) list"

type_synonym 'f cli = "(string \<times> 'f commands) list"

type_synonym 'f generated = "(string \<times> 'f cli) list"

definition CURRENT_VERSION :: string where
  "CURRENT_VERSION = ''v2''"

definition GROUP_MEMBERS_PAYLOAD :: string where
  "GROUP_MEMBERS_PAYLOAD = ''target-groups-members''"

definition GROUP_NAME_PAYLOAD :: string where
  "GROUP_NAME_PAYLOAD = ''target-groups-name''"

definition GROUPS_PAYLOAD :: string where
  "GROUPS_PAYLOAD = ''target-group''"

text \<open>
  Modelled from the spec: the decorator \<^verbatim>\<open>option(...)\<close> of \<^verbatim>\<open>cray.core\<close>, which is
  not part of the sources at hand, applied to a command. The spec (6): a mechanism to
  attach a new option to an existing command. The new descriptor goes to the end of the
  command's \<^verbatim>\<open>params\<close>, where the module reads it back (\<^verbatim>\<open>params[-1]\<close>,
  \<^verbatim>\<open>params[-2:]\<close>). The descriptors that the four calls build are parameters of the
  patch phase.
\<close>

definition option :: "param \<Rightarrow> 'f command \<Rightarrow> 'f command" where
  "option p cmd = cmd\<lparr>params := params cmd @ [p]\<rparr>"

text \<open>\<^verbatim>\<open>s.startswith(prefix)\<close>.\<close>

definition startswith :: "string \<Rightarrow> string \<Rightarrow> bool" where
  "startswith s pre = (take (length pre) s = pre)"

text \<open>
  The loop of both setup functions:
  \<^verbatim>\<open>for param in ...: if not param.name.startswith(prefix): new_params.append(param)\<close>.
\<close>

fun append_unless_prefixed :: "string \<Rightarrow> param list \<Rightarrow> param list \<Rightarrow> param list" where
  "append_unless_prefixed pre new_params [] = new_params"
| "append_unless_prefixed pre new_params (p # rest) =
     append_unless_prefixed pre
       (if \<not> startswith (param_name p) pre then new_params @ [p] else new_params)
       rest"

text \<open>\<^verbatim>\<open>setup_configuration_from_file(cfs_cli)\<close>, with the tree of its own call of
  \<^verbatim>\<open>generate\<close> and the descriptors of \<^verbatim>\<open>--file\<close> and \<^verbatim>\<open>--update-branches\<close>.\<close>

definition setup_configuration_from_file ::
  "'f generated \<Rightarrow> param \<Rightarrow> param \<Rightarrow> 'f cli \<Rightarrow> error + 'f cli"
where
  "setup_configuration_from_file tmp_generated file_option branches_option cfs_cli =
     and_then (getitem tmp_generated CURRENT_VERSION) (\<lambda>tmp_cli.
     and_then (getitem tmp_cli ''configurations'') (\<lambda>tmp_configurations.
     and_then (getitem tmp_configurations ''update'') (\<lambda>update_command.
     and_then (getitem tmp_configurations ''patch'') (\<lambda>patch_command.
       let update_command = option file_option update_command;
           update_command = option branches_option update_command;
           ps = params update_command;
           new_params = drop (length ps - 2) ps;
           new_params = append_unless_prefixed ''layers_'' new_params (take (length ps - 2) ps);
           update_command = update_command\<lparr>params := new_params\<rparr>;
           update_command = update_command
             \<lparr>callback := Configurations_shim (callback update_command) (callback patch_command)\<rparr>
       in and_then (getitem cfs_cli ''configurations'') (\<lambda>configurations.
            Inr (AList.update ''configurations''
                   (AList.update ''update'' update_command configurations) cfs_cli))))))"

text \<open>\<^verbatim>\<open>params.insert(i, p)\<close> for an index that is not negative.\<close>

definition list_insert :: "nat \<Rightarrow> 'a \<Rightarrow> 'a list \<Rightarrow> 'a list" where
  "list_insert i x xs = take i xs @ [x] @ drop i xs"

text \<open>The loop over \<^verbatim>\<open>CREATE_CMD.params\<close> that builds the new list.\<close>

fun create_params_loop :: "param list \<Rightarrow> param list \<Rightarrow> param list" where
  "create_params_loop ps [] = ps"
| "create_params_loop ps (p # rest) =
     (if payload_name p = GROUP_MEMBERS_PAYLOAD \<or> payload_name p = GROUP_NAME_PAYLOAD then
        create_params_loop ps rest
      else if payload_name p = GROUPS_PAYLOAD then
        create_params_loop (list_insert 1 p ps) rest
      else
        create_params_loop (ps @ [p]) rest)"

text \<open>
  The statements of the module between \<^verbatim>\<open># SESSIONS #\<close> and
  \<^verbatim>\<open># COMPONENTS #\<close>, with the descriptor of \<^verbatim>\<open>--target-group\<close>.
  \<^verbatim>\<open>CREATE_CMD\<close> is the object in the tree, so that what is assigned to it shows there.
\<close>

definition patch_sessions :: "param \<Rightarrow> 'f cli \<Rightarrow> error + 'f cli" where
  "patch_sessions group_option cli =
     and_then (getitem cli ''sessions'') (\<lambda>sessions.
     and_then (getitem sessions ''create'') (\<lambda>CREATE_CMD.
     and_then (delitem sessions ''update'') (\<lambda>sessions.
       let CREATE_CMD = option group_option CREATE_CMD;
           CREATE_CMD = CREATE_CMD\<lparr>params := create_params_loop [] (params CREATE_CMD)\<rparr>;
           CREATE_CMD = CREATE_CMD\<lparr>callback := Sessions_shim (callback CREATE_CMD)\<rparr>
       in Inr (AList.update ''sessions'' (AList.update ''create'' CREATE_CMD sessions) cli))))"

text \<open>\<^verbatim>\<open>setup_component_state(cfs_cli)\<close>, with the descriptor of \<^verbatim>\<open>--state\<close>.\<close>

definition setup_component_state :: "param \<Rightarrow> 'f cli \<Rightarrow> error + 'f cli" where
  "setup_component_state state_option cfs_cli =
     and_then (getitem cfs_cli ''components'') (\<lambda>components.
     and_then (getitem components ''update'') (\<lambda>command.
       let command = option state_option command;
           ps = params command
       in (case rev ps of
             [] \<Rightarrow> Inl (IndexError ''list index out of range'')
           | newest # _ \<Rightarrow>
               let new_params = append_unless_prefixed ''state_'' [newest]
                                  (take (length ps - 1) ps);
                   command = command\<lparr>params := new_params\<rparr>;
                   command = command\<lparr>callback := Components_shim (callback command)\<rparr>
               in Inr (AList.update ''components''
                         (AList.update ''update'' command components) cfs_cli))))"

text \<open>
  The module from top to bottom: the tree of the first call of \<^verbatim>\<open>generate\<close>,
  the commands of the current version, and the three patches in their order. The result
  is \<^verbatim>\<open>cli.commands\<close> when the import is over, or the exception that ends it.
\<close>

definition cfs_module ::
  "'f generated \<Rightarrow> 'f generated \<Rightarrow> param \<Rightarrow> param \<Rightarrow> param \<Rightarrow> param \<Rightarrow> error + 'f cli"
where
  "cfs_module generated tmp_generated file_option branches_option group_option state_option =
     and_then (getitem generated CURRENT_VERSION) (\<lambda>cli.
     and_then (setup_configuration_from_file tmp_generated file_option branches_option cli)
       (\<lambda>cli.
     and_then (patch_sessions group_option cli) (\<lambda>cli.
       setup_component_state state_option cli)))"

text \<open>A small generated tree for the examples.\<close>

definition sample_generated :: "string generated" where
  "sample_generated =
     [(''v2'',
       [(''configurations'',
         [(''list'', \<lparr>params = [], callback = Generated ''configurations list''\<rparr>),
          (''update'',
           \<lparr>params = [\<lparr>param_name = ''layers_name'', payload_name = ''layers-name''\<rparr>,
                       \<lparr>param_name = ''configuration_id'', payload_name = ''configuration_id''\<rparr>],
            callback = Generated ''configurations update''\<rparr>),
          (''patch'',
           \<lparr>params = [\<lparr>param_name = ''configuration_id'', payload_name = ''configuration_id''\<rparr>],
            callback = Generated ''configurations patch''\<rparr>)]),
        (''sessions'',
         [(''create'',
           \<lparr>params = [\<lparr>param_name = ''name'', payload_name = ''name''\<rparr>,
                       \<lparr>param_name = ''target_definition'', payload_name = ''target-definition''\<rparr>,
                       \<lparr>param_name = ''target_groups_name'', payload_name = ''target-groups-name''\<rparr>,
                       \<lparr>param_name = ''target_groups_members'',
                        payload_name = ''target-groups-members''\<rparr>],
            callback = Generated ''sessions create''\<rparr>),
          (''update'', \<lparr>params = [], callback = Generated ''sessions update''\<rparr>),
          (''list'', \<lparr>params = [], callback = Generated ''sessions list''\<rparr>)]),
        (''components'',
         [(''update'',
           \<lparr>params = [\<lparr>param_name = ''state_commit'', payload_name = ''state-commit''\<rparr>,
                       \<lparr>param_name = ''enabled'', payload_name = ''enabled''\<rparr>],
            callback = Generated ''components update''\<rparr>)])])]"

section \<open>A decoder for JSON texts\<close>

text \<open>
  \<^verbatim>\<open>json.loads\<close> of Python's standard library is a parameter of the shims. For
  the examples it is instantiated by \<open>json_loads\<close>, which reads a text as the decoder
  of CPython does (up to version 3.12; messages as the C scanner words them), from left
  to right in one pass with a stack of the open arrays and objects. A text with a
  fraction, an exponent, \<^verbatim>\<open>NaN\<close>, \<^verbatim>\<open>Infinity\<close> or a \<^verbatim>\<open>\u\<close> escape has no
  value in \<open>pyval\<close>: there the answer is \<open>Unmodelled\<close>, which says nothing about
  Python. Neither the limit on nesting nor the one on the digits of a number is modelled.
\<close>

datatype frame =
    Arr "pyval list"
  | Obj "(string \<times> pyval) list"
  | Key string

datatype mode =
    Value_start
  | Array_start
  | Object_start
  | Key_start
  | Colon
  | After_value
  | Done pyval
  | In_string bool string
  | In_escape bool string
  | In_literal string pyval
  | Minus
  | Zero
  | Digits bool nat

type_synonym scan = "mode \<times> frame list"

definition json_space :: "char \<Rightarrow> bool" where
  "json_space c = (c = CHR '' '' \<or> c = CHR 0x09 \<or> c = CHR 0x0A \<or> c = CHR 0x0D)"

definition digit_of :: "char \<Rightarrow> nat option" where
  "digit_of c =
     (let n = (of_char c :: nat) in if 48 \<le> n \<and> n \<le> 57 then Some (n - 48) else None)"

text \<open>The character an escape \<^verbatim>\<open>\c\<close> stands for.\<close>

definition unescape :: "char \<Rightarrow> char option" where
  "unescape c =
     (if c = CHR 0x22 then Some (CHR 0x22)
      else if c = CHR 0x5C then Some (CHR 0x5C)
      else if c = CHR ''/'' then Some (CHR ''/'')
      else if c = CHR ''b'' then Some (CHR 0x08)
      else if c = CHR ''f'' then Some (CHR 0x0C)
      else if c = CHR ''n'' then Some (CHR 0x0A)
      else if c = CHR ''r'' then Some (CHR 0x0D)
      else if c = CHR ''t'' then Some (CHR 0x09)
      else None)"

text \<open>
  A value is complete: it is the result, the next element of the open array, or the
  value of the pending key of the open object (a repeated key keeps its place and takes
  the later value, as in a Python dictionary).
\<close>

fun complete :: "pyval \<Rightarrow> frame list \<Rightarrow> error + scan" where
  "complete v [] = Inr (Done v, [])"
| "complete v (Arr xs # st) = Inr (After_value, Arr (xs @ [v]) # st)"
| "complete v (Key k # Obj kvs # st) = Inr (After_value, Obj (AList.update k v kvs) # st)"
| "complete v st = Inl (Unmodelled ''no open array or key'')"

text \<open>The character after a complete value.\<close>

definition after_value :: "scan \<Rightarrow> char \<Rightarrow> error + scan" where
  "after_value s c =
     (case fst s of
        Done v \<Rightarrow>
          if json_space c then Inr s else Inl (JSONDecodeError ''Extra data'')
      | _ \<Rightarrow>
          (case snd s of
             Arr xs # st \<Rightarrow>
               if json_space c then Inr (After_value, Arr xs # st)
               else if c = CHR '','' then Inr (Value_start, Arr xs # st)
               else if c = CHR '']'' then complete (PList xs) st
               else Inl (JSONDecodeError ''Expecting ',' delimiter'')
           | Obj kvs # st \<Rightarrow>
               if json_space c then Inr (After_value, Obj kvs # st)
               else if c = CHR '','' then Inr (Key_start, Obj kvs # st)
               else if c = CHR ''}'' then complete (PDict kvs) st
               else Inl (JSONDecodeError ''Expecting ',' delimiter'')
           | _ \<Rightarrow> Inl (Unmodelled ''no open array or object'')))"

text \<open>The first character of a value.\<close>

definition value_start :: "frame list \<Rightarrow> char \<Rightarrow> error + scan" where
  "value_start st c =
     (if c = CHR 0x22 then Inr (In_string False [], st)
      else if c = CHR ''['' then Inr (Array_start, Arr [] # st)
      else if c = CHR ''{'' then Inr (Object_start, Obj [] # st)
      else if c = CHR ''n'' then Inr (In_literal ''ull'' PNone, st)
      else if c = CHR ''t'' then Inr (In_literal ''rue'' (PBool True), st)
      else if c = CHR ''f'' then Inr (In_literal ''alse'' (PBool False), st)
      else if c = CHR ''-'' then Inr (Minus, st)
      else if c = CHR ''0'' then Inr (Zero, st)
      else if c = CHR ''N'' \<or> c = CHR ''I'' then Inl (Unmodelled ''NaN or Infinity'')
      else (case digit_of c of
              Some d \<Rightarrow> Inr (Digits False d, st)
            | None \<Rightarrow> Inl (JSONDecodeError ''Expecting value'')))"

definition number_end :: "char \<Rightarrow> bool" where
  "number_end c = (c \<noteq> CHR ''.'' \<and> c \<noteq> CHR ''e'' \<and> c \<noteq> CHR ''E'')"

definition int_of_digits :: "bool \<Rightarrow> nat \<Rightarrow> pyval" where
  "int_of_digits neg n = PInt (if neg then - int n else int n)"

fun step :: "scan \<Rightarrow> char \<Rightarrow> error + scan" where
  "step (Value_start, st) c =
     (if json_space c then Inr (Value_start, st) else value_start st c)"
| "step (Array_start, st) c =
     (if json_space c then Inr (Array_start, st)
      else if c = CHR '']'' then
        (case st of
           Arr xs # st' \<Rightarrow> complete (PList xs) st'
         | _ \<Rightarrow> Inl (Unmodelled ''no open array''))
      else value_start st c)"
| "step (Object_start, st) c =
     (if json_space c then Inr (Object_start, st)
      else if c = CHR 0x22 then Inr (In_string True [], st)
      else if c = CHR ''}'' then
        (case st of
           Obj kvs # st' \<Rightarrow> complete (PDict kvs) st'
         | _ \<Rightarrow> Inl (Unmodelled ''no open object''))
      else Inl (JSONDecodeError ''Expecting property name enclosed in double quotes''))"
| "step (Key_start, st) c =
     (if json_space c then Inr (Key_start, st)
      else if c = CHR 0x22 then Inr (In_string True [], st)
      else Inl (JSONDecodeError ''Expecting property name enclosed in double quotes''))"
| "step (Colon, st) c =
     (if json_space c then Inr (Colon, st)
      else if c = CHR '':'' then Inr (Value_start, st)
      else Inl (JSONDecodeError ''Expecting ':' delimiter''))"
| "step (After_value, st) c = after_value (After_value, st) c"
| "step (Done v, st) c = after_value (Done v, st) c"
| "step (In_string is_key acc, st) c =
     (if c = CHR 0x22 then
        (if is_key then Inr (Colon, Key (rev acc) # st) else complete (PStr (rev acc)) st)
      else if c = CHR 0x5C then Inr (In_escape is_key acc, st)
      else if (of_char c :: nat) < 32 then Inl (JSONDecodeError ''Invalid control character at'')
      else Inr (In_string is_key (c # acc), st))"
| "step (In_escape is_key acc, st) c =
     (case unescape c of
        Some d \<Rightarrow> Inr (In_string is_key (d # acc), st)
      | None \<Rightarrow>
          if c = CHR ''u'' then Inl (Unmodelled ''unicode escape'')
          else Inl (JSONDecodeError (''Invalid '' @ [CHR 0x5C] @ ''escape'')))"
| "step (In_literal rest v, st) c =
     (case rest of
        [] \<Rightarrow> Inl (Unmodelled ''empty literal'')
      | r # rest' \<Rightarrow>
          if c \<noteq> r then Inl (JSONDecodeError ''Expecting value'')
          else if rest' = [] then complete v st
          else Inr (In_literal rest' v, st))"
| "step (Minus, st) c =
     (if c = CHR ''0'' then Inr (Zero, st)
      else if c = CHR ''I'' then Inl (Unmodelled ''-Infinity'')
      else (case digit_of c of
              Some d \<Rightarrow> Inr (Digits True d, st)
            | None \<Rightarrow> Inl (JSONDecodeError ''Expecting value'')))"
| "step (Zero, st) c =
     (if number_end c then and_then (complete (PInt 0) st) (\<lambda>s. after_value s c)
      else Inl (Unmodelled ''fraction or exponent''))"
| "step (Digits neg n, st) c =
     (case digit_of c of
        Some d \<Rightarrow> Inr (Digits neg (10 * n + d), st)
      | None \<Rightarrow>
          if number_end c then
            and_then (complete (int_of_digits neg n) st) (\<lambda>s. after_value s c)
          else Inl (Unmodelled ''fraction or exponent''))"

text \<open>The end of the text.\<close>

definition finish_value :: "scan \<Rightarrow> error + pyval" where
  "finish_value s =
     (case fst s of
        Done v \<Rightarrow> Inr v
      | _ \<Rightarrow> Inl (JSONDecodeError ''Expecting ',' delimiter''))"

fun finish :: "scan \<Rightarrow> error + pyval" where
  "finish (Done v, st) = Inr v"
| "finish (Value_start, st) = Inl (JSONDecodeError ''Expecting value'')"
| "finish (Array_start, st) = Inl (JSONDecodeError ''Expecting value'')"
| "finish (Object_start, st) =
     Inl (JSONDecodeError ''Expecting property name enclosed in double quotes'')"
| "finish (Key_start, st) =
     Inl (JSONDecodeError ''Expecting property name enclosed in double quotes'')"
| "finish (Colon, st) = Inl (JSONDecodeError ''Expecting ':' delimiter'')"
| "finish (After_value, st) = Inl (JSONDecodeError ''Expecting ',' delimiter'')"
| "finish (In_string is_key acc, st) = Inl (JSONDecodeError ''Unterminated string starting at'')"
| "finish (In_escape is_key acc, st) = Inl (JSONDecodeError ''Unterminated string starting at'')"
| "finish (In_literal rest v, st) = Inl (JSONDecodeError ''Expecting value'')"
| "finish (Minus, st) = Inl (JSONDecodeError ''Expecting value'')"
| "finish (Zero, st) = and_then (complete (PInt 0) st) finish_value"
| "finish (Digits neg n, st) = and_then (complete (int_of_digits neg n) st) finish_value"

fun scan_text :: "scan \<Rightarrow> string \<Rightarrow> error + pyval" where
  "scan_text s [] = finish s"
| "scan_text s (c # cs) =
     (case step s c of
        Inl e \<Rightarrow> Inl e
      | Inr s' \<Rightarrow> scan_text s' cs)"

definition json_loads :: "string \<Rightarrow> error + pyval" where
  "json_loads text = scan_text (Value_start, []) text"

section \<open>A sample world for the examples\<close>

text \<open>
  The theorems below hold for every world, file system and generated callback. The
  examples run in a world of a few text files and a list of the requests sent so far,
  where a generated callback sends its request (the list grows by the name of the
  callback and its keyword arguments) and returns \<^verbatim>\<open>None\<close>.
\<close>

record world =
  files :: "(string \<times> string) list"
  sent :: "(string \<times> kwargs) list"

definition read_text :: "pyval \<Rightarrow> world \<Rightarrow> error + string" where
  "read_text p w =
     (case p of
        PStr path \<Rightarrow>
          (case map_of (files w) path of
             Some text \<Rightarrow> Inr text
           | None \<Rightarrow> Inl (OSError ''No such file or directory''))
      | PInt fd \<Rightarrow> Inl (OSError ''Bad file descriptor'')
      | PBool fd \<Rightarrow> Inl (OSError ''Bad file descriptor'')
      | _ \<Rightarrow> Inl (TypeError ''expected str, bytes or os.PathLike object''))"

definition request :: "string \<Rightarrow> kwargs \<Rightarrow> world \<Rightarrow> (error + pyval) \<times> world" where
  "request label kw w = (Inr PNone, w\<lparr>sent := sent w @ [(label, kw)]\<rparr>)"

definition request_for ::
  "string \<Rightarrow> string \<Rightarrow> opt \<Rightarrow> kwargs \<Rightarrow> world \<Rightarrow> (error + pyval) \<times> world"
where
  "request_for label id_name ident kw w = request label ((id_name, ident) # kw) w"

definition sample_world :: world where
  \<open>sample_world =
     \<lparr>files = [(''cfg.json'', ''{"layers":[]}''), (''broken.json'', ''{"layers":'')],
      sent = []\<rparr>\<close>

section \<open>Properties of the string methods\<close>

lemma str_split_not_Nil: "str_split sep s \<noteq> []"
  by (induction s) (auto split: list.splits)

lemma str_join_str_split: "str_join [sep] (str_split sep s) = s"
proof (induction s)
  case Nil
  show ?case by simp
next
  case (Cons c cs)
  obtain t ts where split: "str_split sep cs = t # ts"
    using str_split_not_Nil [of sep cs] by (cases "str_split sep cs") auto
  show ?case
  proof (cases "c = sep")
    case True
    with Cons split show ?thesis by simp
  next
    case False
    have "str_join [sep] ((c # t) # ts) = c # str_join [sep] (t # ts)"
      by (cases ts) simp_all
    with False Cons split show ?thesis by simp
  qed
qed

lemma str_split_no_sep: "t \<in> set (str_split sep s) \<Longrightarrow> sep \<notin> set t"
proof (induction s arbitrary: t)
  case Nil
  then show ?case by simp
next
  case (Cons c cs)
  obtain u us where split: "str_split sep cs = u # us"
    using str_split_not_Nil [of sep cs] by (cases "str_split sep cs") auto
  show ?case
  proof (cases "c = sep")
    case True
    with Cons.prems have "t = [] \<or> t \<in> set (str_split sep cs)" by simp
    with Cons.IH show ?thesis by auto
  next
    case False
    with Cons.prems split have "t = c # u \<or> t \<in> set us" by simp
    moreover have "sep \<notin> set u" using Cons.IH [of u] split by simp
    moreover have "t \<in> set us \<Longrightarrow> sep \<notin> set t" using Cons.IH [of t] split by simp
    ultimately show ?thesis using False by auto
  qed
qed

lemma rev_drop_take:
  "rev (dropWhile P (rev r)) @ rev (takeWhile P (rev r)) = r"
proof -
  have "rev (takeWhile P (rev r) @ dropWhile P (rev r)) = r"
    by (simp only: takeWhile_dropWhile_id rev_rev_ident)
  then show ?thesis by (simp only: rev_append)
qed

lemma str_strip_suffix:
  "dropWhile isspace s = str_strip s @ rev (takeWhile isspace (rev (dropWhile isspace s)))"
  unfolding str_strip_def by (rule rev_drop_take [symmetric])

lemma list_all_takeWhile: "list_all P (takeWhile P xs)"
  by (induction xs) simp_all

lemma str_strip_decomposition:
  "\<exists>a b. s = a @ str_strip s @ b \<and> list_all isspace a \<and> list_all isspace b"
proof -
  let ?a = "takeWhile isspace s"
  let ?b = "rev (takeWhile isspace (rev (dropWhile isspace s)))"
  have "s = ?a @ dropWhile isspace s" by simp
  then have "s = ?a @ str_strip s @ ?b"
    using str_strip_suffix [of s] by simp
  moreover have "list_all isspace ?a" by (rule list_all_takeWhile)
  moreover have "list_all isspace ?b"
    using list_all_takeWhile [of isspace "rev (dropWhile isspace s)"]
    by (simp add: list_all_iff)
  ultimately show ?thesis by blast
qed

lemma str_strip_ends:
  "str_strip s = [] \<or> (\<not> isspace (hd (str_strip s)) \<and> \<not> isspace (last (str_strip s)))"
proof (cases "str_strip s = []")
  case True
  then show ?thesis by simp
next
  case False
  let ?r = "dropWhile isspace s"
  let ?d = "dropWhile isspace (rev ?r)"
  from False have d: "?d \<noteq> []" by (simp add: str_strip_def)
  then have "\<not> isspace (hd ?d)" by (rule hd_dropWhile)
  then have last: "\<not> isspace (last (str_strip s))"
    using d by (simp add: str_strip_def last_rev)
  have r: "?r \<noteq> []"
  proof
    assume e: "?r = []"
    have "?d = []" unfolding e by simp
    with d show False by contradiction
  qed
  then have hd_r: "\<not> isspace (hd ?r)" by (rule hd_dropWhile)
  from False have "hd ?r = hd (str_strip s)"
    using str_strip_suffix [of s] by (metis hd_append2)
  with hd_r last show ?thesis by simp
qed

section \<open>The groups of \<^verbatim>\<open>--target-group\<close>\<close>

lemma groups_loop_map:
  "groups_loop acc v =
     acc @ map (\<lambda>(g, ms). PDict [(''name'', PStr g),
                  (''members'', PList (map (\<lambda>m. PStr (str_strip m)) (str_split CHR '','' ms)))]) v"
  by (induction acc v rule: groups_loop.induct) simp_all

text \<open>
  Claim C2. For every sequence of repetitions of \<^verbatim>\<open>--target-group\<close>, each a pair
  of a group and its comma-separated members, the callback returns (bare, or through
  the wrapped callback) the list with one record per repetition, in the order of the
  repetitions: the record's name is the group, its members are the pieces of the
  members string between the commas, each without its leading and trailing whitespace.
  The pieces joined by commas are the members string again and no piece holds a comma;
  a stripped piece is its piece without a run of whitespace at either end, and it is
  empty or begins and ends with a character that is not whitespace. In particular
  \<^verbatim>\<open>--target-group A m1,m2 --target-group B m3\<close> gives
  \<^verbatim>\<open>[{"name":"A","members":["m1","m2"]},{"name":"B","members":["m3"]}]\<close>.
\<close>

theorem targets_callback_groups:
  "targets_callback None ctx p v =
     Plain (PList (map (\<lambda>(g, ms). PDict [(''name'', PStr g),
        (''members'', PList (map (\<lambda>m. PStr (str_strip m)) (str_split CHR '','' ms)))]) v))
   \<and> targets_callback (Some opt_callback) ctx p v =
     Passed \<lparr>name = payload_name p,
       value = PList (map (\<lambda>(g, ms). PDict [(''name'', PStr g),
        (''members'', PList (map (\<lambda>m. PStr (str_strip m)) (str_split CHR '','' ms)))]) v)\<rparr>
   \<and> (\<forall>ms. str_join '','' (str_split CHR '','' ms) = ms
        \<and> (\<forall>t \<in> set (str_split CHR '','' ms). CHR '','' \<notin> set t
             \<and> (\<exists>a b. t = a @ str_strip t @ b \<and> list_all isspace a \<and> list_all isspace b)
             \<and> (str_strip t = [] \<or>
                  (\<not> isspace (hd (str_strip t)) \<and> \<not> isspace (last (str_strip t))))))
   \<and> targets_callback None ctx p [(''A'', ''m1,m2''), (''B'', ''m3'')] =
     Plain (PList [PDict [(''name'', PStr ''A''), (''members'', PList [PStr ''m1'', PStr ''m2''])],
                   PDict [(''name'', PStr ''B''), (''members'', PList [PStr ''m3''])]])"
  (is "?bare \<and> ?wrapped \<and> ?pieces \<and> ?example")
proof -
  have bare: ?bare
    by (simp add: targets_callback_def groups_loop_map)
  have wrapped: ?wrapped
    by (simp add: targets_callback_def groups_loop_map opt_callback_def)
  have pieces: ?pieces
    using str_join_str_split [of "CHR '',''"] str_split_no_sep [of _ "CHR '',''"]
      str_strip_decomposition str_strip_ends
    by blast
  have example: ?example
    by (simp add: targets_callback_def str_strip_def isspace_def)
  from bare wrapped pieces example show ?thesis by blast
qed

theorem targets_callback_groups_witness:
  "targets_callback (Some opt_callback) ()
      \<lparr>param_name = ''target_group'', payload_name = ''target-group''\<rparr>
      [(''compute'', '' x1 , x2,x3 ''), (''uan'', [])] =
     Passed \<lparr>name = ''target-group'',
       value = PList [PDict [(''name'', PStr ''compute''),
                             (''members'', PList [PStr ''x1'', PStr ''x2'', PStr ''x3''])],
                      PDict [(''name'', PStr ''uan''), (''members'', PList [PStr []])]]\<rparr>
   \<and> str_join '','' (str_split CHR '','' '' x1 , x2,x3 '') = '' x1 , x2,x3 ''
   \<and> CHR '','' \<notin> set '' x2''"
proof -
  let ?p = "\<lparr>param_name = ''target_group'', payload_name = ''target-group''\<rparr>"
  let ?v = "[(''compute'', '' x1 , x2,x3 ''), (''uan'', [])]"
  have "targets_callback (Some opt_callback) () ?p ?v =
     Passed \<lparr>name = payload_name ?p,
       value = PList (map (\<lambda>(g, ms). PDict [(''name'', PStr g),
        (''members'', PList (map (\<lambda>m. PStr (str_strip m)) (str_split CHR '','' ms)))]) ?v)\<rparr>"
    by (rule conjunct1 [OF conjunct2 [OF targets_callback_groups]])
  also have "\<dots> = Passed \<lparr>name = ''target-group'',
       value = PList [PDict [(''name'', PStr ''compute''),
                             (''members'', PList [PStr ''x1'', PStr ''x2'', PStr ''x3''])],
                      PDict [(''name'', PStr ''uan''), (''members'', PList [PStr []])]]\<rparr>"
    by (simp add: str_strip_def isspace_def)
  finally have parsed: "targets_callback (Some opt_callback) () ?p ?v =
     Passed \<lparr>name = ''target-group'',
       value = PList [PDict [(''name'', PStr ''compute''),
                             (''members'', PList [PStr ''x1'', PStr ''x2'', PStr ''x3''])],
                      PDict [(''name'', PStr ''uan''), (''members'', PList [PStr []])]]\<rparr>" .
  have joined: "str_join '','' (str_split CHR '','' '' x1 , x2,x3 '') = '' x1 , x2,x3 ''"
    by simp
  have piece: "CHR '','' \<notin> set '' x2''"
    by simp
  from parsed joined piece show ?thesis by blast
qed

section \<open>Configurations: \<^verbatim>\<open>--file\<close> and \<^verbatim>\<open>--update-branches\<close>\<close>

lemmas json_loads_simps =
  json_loads_def value_start_def json_space_def digit_of_def unescape_def and_then_def
  number_end_def int_of_digits_def after_value_def finish_value_def

lemmas sample_world_simps =
  sample_world_def read_text_def request_for_def request_def

text \<open>
  Claim C3. An invocation of the patched \<^verbatim>\<open>configurations update\<close> with both
  \<^verbatim>\<open>--file\<close> and \<^verbatim>\<open>--update-branches\<close> omitted (the value of the one is
  \<^verbatim>\<open>None\<close>, of the flag \<^verbatim>\<open>False\<close> or \<^verbatim>\<open>None\<close>: neither is true) raises the
  exception with the usage message. Whatever the two callbacks and the file system are,
  the world is the one before the call: neither callback ran and nothing was sent.
\<close>

theorem configurations_update_neither_option:
  assumes "\<not> truthy (value file)" and "\<not> truthy (value update_branches)"
  shows "create_configurations_shim loads read_file FROM_FILE_TAG update_callback patch_callback
           configuration_id file update_branches kwargs w =
         (Inl (Exception ''Either --file or --update-branches must be set for updates''), w)"
  using assms by (simp add: create_configurations_shim_def)

theorem configurations_update_neither_option_witness:
  "create_configurations_shim json_loads read_text ''FROM_FILE''
      (request_for ''update'' ''configuration_id'') (request_for ''patch'' ''configuration_id'')
      \<lparr>name = ''configuration_id'', value = PStr ''cfg1''\<rparr>
      \<lparr>name = ''file'', value = PNone\<rparr>
      \<lparr>name = ''update-branches'', value = PBool False\<rparr>
      [(''name'', \<lparr>name = ''name'', value = PStr ''n''\<rparr>)] sample_world =
    (Inl (Exception ''Either --file or --update-branches must be set for updates''), sample_world)
   \<and> sent sample_world = []"
  using configurations_update_neither_option
    [of "\<lparr>name = ''file'', value = PNone\<rparr>"
        "\<lparr>name = ''update-branches'', value = PBool False\<rparr>"
        json_loads read_text "''FROM_FILE''"
        "request_for ''update'' ''configuration_id''" "request_for ''patch'' ''configuration_id''"
        "\<lparr>name = ''configuration_id'', value = PStr ''cfg1''\<rparr>"
        "[(''name'', \<lparr>name = ''name'', value = PStr ''n''\<rparr>)]" sample_world]
  by (simp add: sample_world_def)




text \<open>
  Claim C5. In every invocation of the patched \<^verbatim>\<open>configurations update\<close> with
  \<^verbatim>\<open>--file\<close> naming a file (the name is not empty) that can be read and whose
  content is a valid JSON document, the original update callback is called, and the
  entry of its keyword arguments under \<^verbatim>\<open>FROM_FILE_TAG\<close>, the body of the
  request, holds exactly the decoded document, whatever the other options are; the
  other keyword arguments are passed as they came.
\<close>

theorem configurations_update_from_file:
  assumes "value file = PStr path" and "path \<noteq> []"
    and "read_file (PStr path) w = Inr text" and "loads text = Inr data"
  shows "create_configurations_shim loads read_file FROM_FILE_TAG update_callback patch_callback
           configuration_id file update_branches kwargs w =
         update_callback configuration_id
           (AList.update FROM_FILE_TAG \<lparr>name = FROM_FILE_TAG, value = data\<rparr> kwargs) w
       \<and> map_of (AList.update FROM_FILE_TAG \<lparr>name = FROM_FILE_TAG, value = data\<rparr> kwargs)
           FROM_FILE_TAG = Some \<lparr>name = FROM_FILE_TAG, value = data\<rparr>
       \<and> (\<forall>k. k \<noteq> FROM_FILE_TAG \<longrightarrow>
             map_of (AList.update FROM_FILE_TAG \<lparr>name = FROM_FILE_TAG, value = data\<rparr> kwargs) k
               = map_of kwargs k)"
  using assms by (simp add: create_configurations_shim_def Let_def update_conv')

theorem configurations_update_from_file_witness:
  \<open>create_configurations_shim json_loads read_text ''FROM_FILE''
      (request_for ''update'' ''configuration_id'') (request_for ''patch'' ''configuration_id'')
      \<lparr>name = ''configuration_id'', value = PStr ''cfg1''\<rparr>
      \<lparr>name = ''file'', value = PStr ''cfg.json''\<rparr>
      \<lparr>name = ''update-branches'', value = PBool False\<rparr>
      [(''name'', \<lparr>name = ''name'', value = PStr ''n''\<rparr>)] sample_world
    = (Inr PNone,
       sample_world\<lparr>sent :=
         [(''update'',
           [(''configuration_id'', \<lparr>name = ''configuration_id'', value = PStr ''cfg1''\<rparr>),
            (''name'', \<lparr>name = ''name'', value = PStr ''n''\<rparr>),
            (''FROM_FILE'',
             \<lparr>name = ''FROM_FILE'', value = PDict [(''layers'', PList [])]\<rparr>)])]\<rparr>)
   \<and> json_loads ''{"layers":[]}'' = Inr (PDict [(''layers'', PList [])])\<close>
proof -
  have named: "value \<lparr>name = ''file'', value = PStr ''cfg.json''\<rparr> = PStr ''cfg.json''"
    by simp
  have nonempty: "''cfg.json'' \<noteq> []"
    by simp
  have content: \<open>read_text (PStr ''cfg.json'') sample_world = Inr ''{"layers":[]}''\<close>
    by (simp add: sample_world_simps)
  have decoded: \<open>json_loads ''{"layers":[]}'' = Inr (PDict [(''layers'', PList [])])\<close>
    by (simp add: json_loads_simps)
  have "create_configurations_shim json_loads read_text ''FROM_FILE''
      (request_for ''update'' ''configuration_id'') (request_for ''patch'' ''configuration_id'')
      \<lparr>name = ''configuration_id'', value = PStr ''cfg1''\<rparr>
      \<lparr>name = ''file'', value = PStr ''cfg.json''\<rparr>
      \<lparr>name = ''update-branches'', value = PBool False\<rparr>
      [(''name'', \<lparr>name = ''name'', value = PStr ''n''\<rparr>)] sample_world
    = request_for ''update'' ''configuration_id''
        \<lparr>name = ''configuration_id'', value = PStr ''cfg1''\<rparr>
        (AList.update ''FROM_FILE''
           \<lparr>name = ''FROM_FILE'', value = PDict [(''layers'', PList [])]\<rparr>
           [(''name'', \<lparr>name = ''name'', value = PStr ''n''\<rparr>)])
        sample_world"
    by (rule conjunct1 [OF configurations_update_from_file
          [where loads = json_loads and read_file = read_text,
           OF named nonempty content decoded]])
  then show ?thesis
    using decoded by (simp add: sample_world_simps)
qed

section \<open>The payload of the options\<close>

lemma options_payload_lookup:
  "map_of (options_payload acc kwargs) k =
     (case filter (\<lambda>v. name v = k \<and> value v \<noteq> PNone) (map snd kwargs) of
        [] \<Rightarrow> map_of acc k
      | vs \<Rightarrow> Some (value (last vs)))"
proof (induction acc kwargs rule: options_payload.induct)
  case (1 payload)
  show ?case by simp
next
  case (2 payload k' v rest)
  show ?case
  proof (cases "name v = k \<and> value v \<noteq> PNone")
    case True
    then show ?thesis
      using "2.IH" by (simp add: update_conv' split: list.splits)
  next
    case False
    then show ?thesis
      using "2.IH" by (auto simp add: update_conv' split: list.splits)
  qed
qed

lemma options_payload_keys:
  "fst ` set (options_payload acc kwargs) =
     fst ` set acc \<union> {name v | v. v \<in> snd ` set kwargs \<and> value v \<noteq> PNone}"
proof (induction acc kwargs rule: options_payload.induct)
  case (1 payload)
  show ?case by simp
next
  case (2 payload k' v rest)
  show ?case
    unfolding options_payload.simps "2.IH"
    by (auto simp add: dom_update)
qed

lemma options_payload_distinct:
  "distinct (map fst acc) \<Longrightarrow> distinct (map fst (options_payload acc kwargs))"
  by (induction acc kwargs rule: options_payload.induct) (simp_all add: distinct_update)

lemma sessions_payload_target:
  "map_of (sessions_payload td tg kwargs) ''target'' =
     Some (PDict [(''definition'', value td), (''groups'', value tg)])"
  by (simp add: sessions_payload_def update_conv')

lemma sessions_payload_other:
  "k \<noteq> ''target'' \<Longrightarrow>
   map_of (sessions_payload td tg kwargs) k =
     (case filter (\<lambda>v. name v = k \<and> value v \<noteq> PNone) (map snd kwargs) of
        [] \<Rightarrow> None
      | vs \<Rightarrow> Some (value (last vs)))"
  by (simp add: sessions_payload_def update_conv' options_payload_lookup split: list.splits)

lemma sessions_payload_keys:
  "fst ` set (sessions_payload td tg kwargs) =
     insert ''target'' {name v | v. v \<in> snd ` set kwargs \<and> value v \<noteq> PNone}"
  by (simp add: sessions_payload_def dom_update options_payload_keys)

lemma create_sessions_shim_calls:
  "create_sessions_shim FROM_FILE_TAG func td tg kwargs w =
     func (AList.update FROM_FILE_TAG
             \<lparr>name = FROM_FILE_TAG, value = PDict (sessions_payload td tg kwargs)\<rparr> kwargs) w"
  by (simp add: create_sessions_shim_def)

lemma targets_callback_wrapped:
  "targets_callback (Some opt_callback) ctx p v =
     Passed (opt_callback ctx p (PList (groups_loop [] v)))"
  by (simp add: targets_callback_def)

section \<open>Sessions: the payload of \<^verbatim>\<open>sessions create\<close>\<close>

text \<open>
  Claim C4 fails as stated: an option whose value is empty but not \<^verbatim>\<open>None\<close> is
  not skipped. With \<^verbatim>\<open>--name ''\<close> the payload sent holds \<^verbatim>\<open>"name": ""\<close>.
\<close>

theorem sessions_create_empty_value_counterexample:
  "create_sessions_shim ''FROM_FILE'' (request ''create'')
      \<lparr>name = ''target-definition'', value = PStr ''image''\<rparr>
      \<lparr>name = ''target-group'', value = PList []\<rparr>
      [(''name'', \<lparr>name = ''name'', value = PStr []\<rparr>)] sample_world =
    (Inr PNone,
     sample_world\<lparr>sent :=
       [(''create'',
         [(''name'', \<lparr>name = ''name'', value = PStr []\<rparr>),
          (''FROM_FILE'',
           \<lparr>name = ''FROM_FILE'',
            value = PDict [(''name'', PStr []),
                           (''target'', PDict [(''definition'', PStr ''image''),
                                               (''groups'', PList [])])]\<rparr>)])]\<rparr>)
   \<and> \<not> truthy (PStr [])
   \<and> map_of (sessions_payload
        \<lparr>name = ''target-definition'', value = PStr ''image''\<rparr>
        \<lparr>name = ''target-group'', value = PList []\<rparr>
        [(''name'', \<lparr>name = ''name'', value = PStr []\<rparr>)]) ''name'' = Some (PStr [])"
  by (simp add: create_sessions_shim_def sessions_payload_def sample_world_simps)

text \<open>
  Claim C4 as amended. In every invocation of the patched \<^verbatim>\<open>sessions create\<close> the
  callback of the generator is called with the payload under \<^verbatim>\<open>FROM_FILE_TAG\<close>;
  the payload's \<^verbatim>\<open>target\<close> is the object of the value of
  \<^verbatim>\<open>--target-definition\<close> and the parsed list of \<^verbatim>\<open>--target-group\<close>; every
  other key holds the value of the option with that payload name, the last one if several
  have it, and exactly the options whose value is \<^verbatim>\<open>None\<close> are skipped (an empty
  string or list is kept). In particular
  \<^verbatim>\<open>--target-definition image --target-group g1 img123\<close> gives the target
  \<^verbatim>\<open>{"definition":"image","groups":[{"name":"g1","members":["img123"]}]}\<close>.
\<close>

theorem sessions_create_payload:
  "create_sessions_shim FROM_FILE_TAG func td tg kwargs w =
     func (AList.update FROM_FILE_TAG
             \<lparr>name = FROM_FILE_TAG, value = PDict (sessions_payload td tg kwargs)\<rparr> kwargs) w
   \<and> map_of (sessions_payload td tg kwargs) ''target'' =
       Some (PDict [(''definition'', value td), (''groups'', value tg)])
   \<and> (\<forall>k. k \<noteq> ''target'' \<longrightarrow>
         map_of (sessions_payload td tg kwargs) k =
           (case filter (\<lambda>v. name v = k \<and> value v \<noteq> PNone) (map snd kwargs) of
              [] \<Rightarrow> None
            | vs \<Rightarrow> Some (value (last vs))))
   \<and> distinct (map fst (sessions_payload td tg kwargs))
   \<and> targets_callback (Some opt_callback) ctx p [(''g1'', ''img123'')] =
       Passed (opt_callback ctx p
         (PList [PDict [(''name'', PStr ''g1''), (''members'', PList [PStr ''img123''])]]))
   \<and> map_of (sessions_payload \<lparr>name = n, value = PStr ''image''\<rparr>
         (opt_callback ctx p
           (PList [PDict [(''name'', PStr ''g1''), (''members'', PList [PStr ''img123''])]]))
         kwargs) ''target'' =
       Some (PDict [(''definition'', PStr ''image''),
                    (''groups'', PList [PDict [(''name'', PStr ''g1''),
                                               (''members'', PList [PStr ''img123''])]])])"
  (is "?call \<and> ?target \<and> ?others \<and> ?dict \<and> ?parsed \<and> ?example")
proof -
  have call: ?call by (rule create_sessions_shim_calls)
  have target: ?target by (rule sessions_payload_target)
  have others: ?others using sessions_payload_other by blast
  have dict: ?dict
    by (simp add: sessions_payload_def distinct_update options_payload_distinct)
  have parsed: ?parsed
    by (simp add: targets_callback_wrapped str_strip_def isspace_def)
  have example: ?example
    by (simp add: sessions_payload_target opt_callback_def)
  show ?thesis
    by (rule conjI [OF call conjI [OF target conjI [OF others
          conjI [OF dict conjI [OF parsed example]]]]])
qed

theorem sessions_create_payload_witness:
  "create_sessions_shim ''FROM_FILE'' (request ''create'')
      \<lparr>name = ''target-definition'', value = PStr ''image''\<rparr>
      \<lparr>name = ''target-group'',
       value = PList [PDict [(''name'', PStr ''g1''), (''members'', PList [PStr ''img123''])]]\<rparr>
      [(''name'', \<lparr>name = ''name'', value = PStr ''s1''\<rparr>),
       (''tags'', \<lparr>name = ''tags'', value = PNone\<rparr>)] sample_world =
    (Inr PNone,
     sample_world\<lparr>sent :=
       [(''create'',
         [(''name'', \<lparr>name = ''name'', value = PStr ''s1''\<rparr>),
          (''tags'', \<lparr>name = ''tags'', value = PNone\<rparr>),
          (''FROM_FILE'',
           \<lparr>name = ''FROM_FILE'',
            value = PDict
              [(''name'', PStr ''s1''),
               (''target'',
                PDict [(''definition'', PStr ''image''),
                       (''groups'', PList [PDict [(''name'', PStr ''g1''),
                          (''members'', PList [PStr ''img123''])]])])]\<rparr>)])]\<rparr>)"
proof -
  let ?td = "\<lparr>name = ''target-definition'', value = PStr ''image''\<rparr>"
  let ?tg = "\<lparr>name = ''target-group'',
       value = PList [PDict [(''name'', PStr ''g1''), (''members'', PList [PStr ''img123''])]]\<rparr>"
  let ?kw = "[(''name'', \<lparr>name = ''name'', value = PStr ''s1''\<rparr>),
       (''tags'', \<lparr>name = ''tags'', value = PNone\<rparr>)]"
  have "create_sessions_shim ''FROM_FILE'' (request ''create'') ?td ?tg ?kw sample_world =
     request ''create'' (AList.update ''FROM_FILE''
             \<lparr>name = ''FROM_FILE'', value = PDict (sessions_payload ?td ?tg ?kw)\<rparr> ?kw)
       sample_world"
    by (rule conjunct1 [OF sessions_create_payload])
  then show ?thesis
    by (simp add: sessions_payload_def sample_world_simps)
qed

text \<open>
  Claim C9. The payload of every invocation of the patched \<^verbatim>\<open>sessions create\<close> has
  the key \<^verbatim>\<open>target\<close>. Without any \<^verbatim>\<open>--target-group\<close> the option's callback
  returns the wrapper of the empty list, which becomes the target's groups; without
  \<^verbatim>\<open>--target-definition\<close> the target's definition is \<^verbatim>\<open>None\<close>. Any other
  payload name is absent when every option carrying it has the value \<^verbatim>\<open>None\<close>.
\<close>

theorem sessions_payload_always_target:
  "create_sessions_shim FROM_FILE_TAG func td tg kwargs w =
     func (AList.update FROM_FILE_TAG
             \<lparr>name = FROM_FILE_TAG, value = PDict (sessions_payload td tg kwargs)\<rparr> kwargs) w
   \<and> ''target'' \<in> fst ` set (sessions_payload td tg kwargs)
   \<and> map_of (sessions_payload td tg kwargs) ''target'' =
       Some (PDict [(''definition'', value td), (''groups'', value tg)])
   \<and> targets_callback (Some opt_callback) ctx p [] = Passed (opt_callback ctx p (PList []))
   \<and> map_of (sessions_payload \<lparr>name = n, value = PNone\<rparr> (opt_callback ctx p (PList [])) kwargs)
         ''target'' = Some (PDict [(''definition'', PNone), (''groups'', PList [])])
   \<and> (\<forall>k. k \<noteq> ''target'' \<and> (\<forall>v \<in> snd ` set kwargs. name v = k \<longrightarrow> value v = PNone)
         \<longrightarrow> k \<notin> fst ` set (sessions_payload td tg kwargs))"
  (is "?call \<and> ?present \<and> ?target \<and> ?nogroups \<and> ?unset \<and> ?absent")
proof -
  have call: ?call by (rule create_sessions_shim_calls)
  have present: ?present by (simp add: sessions_payload_keys)
  have target: ?target by (rule sessions_payload_target)
  have nogroups: ?nogroups by (simp add: targets_callback_wrapped)
  have unset: ?unset by (simp add: sessions_payload_target opt_callback_def)
  have absent: ?absent by (auto simp add: sessions_payload_keys)
  show ?thesis
    by (rule conjI [OF call conjI [OF present conjI [OF target
          conjI [OF nogroups conjI [OF unset absent]]]]])
qed

theorem sessions_payload_always_target_witness:
  "create_sessions_shim ''FROM_FILE'' (request ''create'')
      \<lparr>name = ''target-definition'', value = PNone\<rparr>
      \<lparr>name = ''target-group'', value = PList []\<rparr>
      [(''name'', \<lparr>name = ''name'', value = PNone\<rparr>)] sample_world =
    (Inr PNone,
     sample_world\<lparr>sent :=
       [(''create'',
         [(''name'', \<lparr>name = ''name'', value = PNone\<rparr>),
          (''FROM_FILE'',
           \<lparr>name = ''FROM_FILE'',
            value = PDict [(''target'', PDict [(''definition'', PNone),
                                               (''groups'', PList [])])]\<rparr>)])]\<rparr>)
   \<and> ''name'' \<notin> fst ` set (sessions_payload
        \<lparr>name = ''target-definition'', value = PNone\<rparr>
        \<lparr>name = ''target-group'', value = PList []\<rparr>
        [(''name'', \<lparr>name = ''name'', value = PNone\<rparr>)])"
proof -
  let ?td = "\<lparr>name = ''target-definition'', value = PNone\<rparr>"
  let ?tg = "\<lparr>name = ''target-group'', value = PList []\<rparr>"
  let ?kw = "[(''name'', \<lparr>name = ''name'', value = PNone\<rparr>)]"
  have "create_sessions_shim ''FROM_FILE'' (request ''create'') ?td ?tg ?kw sample_world =
     request ''create'' (AList.update ''FROM_FILE''
             \<lparr>name = ''FROM_FILE'', value = PDict (sessions_payload ?td ?tg ?kw)\<rparr> ?kw)
       sample_world"
    by (rule conjunct1 [OF sessions_payload_always_target])
  then show ?thesis
    by (simp add: sessions_payload_def sample_world_simps)
qed

section \<open>Components: \<^verbatim>\<open>--state\<close>\<close>

lemma create_components_shim_calls:
  "components_payload loads state kwargs = Inr payload \<Longrightarrow>
   create_components_shim loads FROM_FILE_TAG func component_id state kwargs w =
     func component_id
       (AList.update FROM_FILE_TAG \<lparr>name = FROM_FILE_TAG, value = PDict payload\<rparr> kwargs) w"
  by (simp add: create_components_shim_def)


lemma components_payload_falsy:
  "\<not> truthy (value state) \<Longrightarrow>
   components_payload loads state kwargs = Inr (options_payload [] kwargs)"
  by (simp add: components_payload_def)



lemma options_payload_no_state:
  "\<forall>v \<in> snd ` set kwargs. name v = ''state'' \<longrightarrow> value v = PNone \<Longrightarrow>
   ''state'' \<notin> fst ` set (options_payload [] kwargs)"
  by (auto simp add: options_payload_keys)



text \<open>
  Claim C10. With \<^verbatim>\<open>--state ''\<close> the decoder is not called and nothing is raised:
  whatever the decoder is, the callback of the generator is called with the payload of
  the other options, as it is when \<^verbatim>\<open>--state\<close> is not supplied at all; the payload has
  no key \<^verbatim>\<open>state\<close>, no other option putting a value under that payload name.
\<close>

theorem components_update_empty_state:
  assumes "value state = PStr []"
  shows "create_components_shim loads FROM_FILE_TAG func component_id state kwargs w =
           func component_id
             (AList.update FROM_FILE_TAG
                \<lparr>name = FROM_FILE_TAG, value = PDict (options_payload [] kwargs)\<rparr> kwargs) w
       \<and> create_components_shim loads FROM_FILE_TAG func component_id state kwargs w =
           create_components_shim loads' FROM_FILE_TAG func component_id
             (state\<lparr>value := PNone\<rparr>) kwargs w
       \<and> ((\<forall>v \<in> snd ` set kwargs. name v = ''state'' \<longrightarrow> value v = PNone) \<longrightarrow>
            ''state'' \<notin> fst ` set (options_payload [] kwargs))"
proof -
  have empty: "components_payload loads state kwargs = Inr (options_payload [] kwargs)"
    using assms by (simp add: components_payload_falsy)
  have omitted: "components_payload loads' (state\<lparr>value := PNone\<rparr>) kwargs =
      Inr (options_payload [] kwargs)"
    by (simp add: components_payload_falsy)
  show ?thesis
    using options_payload_no_state [of kwargs]
    by (simp add: create_components_shim_calls [OF empty]
        create_components_shim_calls [OF omitted])
qed

theorem components_update_empty_state_witness:
  "create_components_shim json_loads ''FROM_FILE'' (request_for ''update'' ''component_id'')
      \<lparr>name = ''component_id'', value = PStr ''x3000c0s1b0n0''\<rparr>
      \<lparr>name = ''state'', value = PStr []\<rparr>
      [(''enabled'', \<lparr>name = ''enabled'', value = PBool False\<rparr>)] sample_world =
    (Inr PNone,
     sample_world\<lparr>sent :=
       [(''update'',
         [(''component_id'', \<lparr>name = ''component_id'', value = PStr ''x3000c0s1b0n0''\<rparr>),
          (''enabled'', \<lparr>name = ''enabled'', value = PBool False\<rparr>),
          (''FROM_FILE'',
           \<lparr>name = ''FROM_FILE'', value = PDict [(''enabled'', PBool False)]\<rparr>)])]\<rparr>)"
proof -
  have supplied: "value \<lparr>name = ''state'', value = PStr []\<rparr> = PStr []"
    by simp
  show ?thesis
    unfolding conjunct1 [OF components_update_empty_state [OF supplied]]
    by (simp add: sample_world_simps)
qed

section \<open>Invalid JSON\<close>




section \<open>The patch phase\<close>

lemma and_then_Inr: "and_then r f = Inr y \<longleftrightarrow> (\<exists>x. r = Inr x \<and> f x = Inr y)"
  by (cases r) (simp_all add: and_then_def)

lemma getitem_Inr: "getitem d k = Inr v \<longleftrightarrow> map_of d k = Some v"
  by (simp add: getitem_def split: option.splits)

lemma delitem_Inr:
  "delitem d k = Inr d' \<longleftrightarrow> k \<in> fst ` set d \<and> d' = AList.delete k d"
proof (cases "map_of d k")
  case None
  then have "k \<notin> fst ` set d" by (simp add: map_of_eq_None_iff)
  with None show ?thesis by (simp add: delitem_def)
next
  case (Some v)
  then have "k \<in> fst ` set d" by (metis map_of_eq_None_iff option.distinct(1))
  with Some show ?thesis by (auto simp add: delitem_def)
qed

lemma setup_configuration_other:
  assumes "setup_configuration_from_file tmp_generated file_option branches_option cli = Inr cli'"
    and "k \<noteq> ''configurations''"
  shows "map_of cli' k = map_of cli k"
  using assms
  by (auto simp add: setup_configuration_from_file_def and_then_Inr Let_def update_conv')

lemma setup_component_other:
  assumes "setup_component_state state_option cli = Inr cli'" and "k \<noteq> ''components''"
  shows "map_of cli' k = map_of cli k"
  using assms
  by (auto simp add: setup_component_state_def and_then_Inr Let_def update_conv' option_def)

lemma patch_sessions_update:
  assumes "patch_sessions group_option cli = Inr cli'"
  shows "\<exists>before after.
           map_of cli ''sessions'' = Some before \<and> ''update'' \<in> fst ` set before
         \<and> map_of cli' ''sessions'' = Some after \<and> ''update'' \<notin> fst ` set after"
proof -
  from assms obtain before create_cmd where
    before: "map_of cli ''sessions'' = Some before"
    and present: "''update'' \<in> fst ` set before"
    and after: "cli' = AList.update ''sessions''
        (AList.update ''create'' create_cmd (AList.delete ''update'' before)) cli"
    by (auto simp add: patch_sessions_def and_then_Inr getitem_Inr delitem_Inr Let_def)
  let ?after = "AList.update ''create'' create_cmd (AList.delete ''update'' before)"
  have "map_of cli' ''sessions'' = Some ?after"
    by (simp add: after update_conv')
  moreover have "''update'' \<notin> fst ` set ?after"
    using delete_notin_dom [of "''update''" before] by (simp add: dom_update)
  ultimately show ?thesis
    using before present by blast
qed

text \<open>
  Claim C6. When the patch phase of the module completes, the mapping of the
  \<^verbatim>\<open>sessions\<close> commands has no key \<^verbatim>\<open>update\<close>, so that looking the sub-action up
  raises KeyError, although the mapping of the generated tree has the key.
\<close>

theorem sessions_update_removed:
  assumes "cfs_module generated tmp_generated file_option branches_option group_option
             state_option = Inr cli"
  shows "\<exists>v2 before after.
           map_of generated CURRENT_VERSION = Some v2
         \<and> map_of v2 ''sessions'' = Some before \<and> ''update'' \<in> fst ` set before
         \<and> map_of cli ''sessions'' = Some after \<and> ''update'' \<notin> fst ` set after
         \<and> getitem after ''update'' = Inl (KeyError ''update'')"
proof -
  from assms obtain v2 cli1 cli2 where
    v2: "map_of generated CURRENT_VERSION = Some v2"
    and configurations:
      "setup_configuration_from_file tmp_generated file_option branches_option v2 = Inr cli1"
    and sessions: "patch_sessions group_option cli1 = Inr cli2"
    and components: "setup_component_state state_option cli2 = Inr cli"
    by (auto simp add: cfs_module_def and_then_Inr getitem_Inr)
  from patch_sessions_update [OF sessions] obtain before after where
    before: "map_of cli1 ''sessions'' = Some before" "''update'' \<in> fst ` set before"
    and after: "map_of cli2 ''sessions'' = Some after" "''update'' \<notin> fst ` set after"
    by blast
  have "map_of v2 ''sessions'' = Some before"
    using setup_configuration_other [OF configurations, of "''sessions''"] before by simp
  moreover have "map_of cli ''sessions'' = Some after"
    using setup_component_other [OF components, of "''sessions''"] after by simp
  moreover have "getitem after ''update'' = Inl (KeyError ''update'')"
  proof -
    have "map_of after ''update'' = None"
      using after(2) by (simp add: map_of_eq_None_iff)
    then show ?thesis by (simp add: getitem_def)
  qed
  ultimately show ?thesis
    using v2 before(2) after(2) by blast
qed

theorem sessions_update_removed_witness:
  "cfs_module sample_generated sample_generated
      \<lparr>param_name = ''file'', payload_name = ''file''\<rparr>
      \<lparr>param_name = ''update_branches'', payload_name = ''update-branches''\<rparr>
      \<lparr>param_name = ''target_group'', payload_name = ''target-group''\<rparr>
      \<lparr>param_name = ''state'', payload_name = ''state''\<rparr> =
    Inr [(''configurations'',
          [(''list'', \<lparr>params = [], callback = Generated ''configurations list''\<rparr>),
           (''update'',
            \<lparr>params = [\<lparr>param_name = ''file'', payload_name = ''file''\<rparr>,
                        \<lparr>param_name = ''update_branches'', payload_name = ''update-branches''\<rparr>,
                        \<lparr>param_name = ''configuration_id'',
                         payload_name = ''configuration_id''\<rparr>],
             callback = Configurations_shim (Generated ''configurations update'')
                          (Generated ''configurations patch'')\<rparr>),
           (''patch'',
            \<lparr>params = [\<lparr>param_name = ''configuration_id'',
                         payload_name = ''configuration_id''\<rparr>],
             callback = Generated ''configurations patch''\<rparr>)]),
         (''sessions'',
          [(''create'',
            \<lparr>params = [\<lparr>param_name = ''name'', payload_name = ''name''\<rparr>,
                        \<lparr>param_name = ''target_group'', payload_name = ''target-group''\<rparr>,
                        \<lparr>param_name = ''target_definition'',
                         payload_name = ''target-definition''\<rparr>],
             callback = Sessions_shim (Generated ''sessions create'')\<rparr>),
           (''list'', \<lparr>params = [], callback = Generated ''sessions list''\<rparr>)]),
         (''components'',
          [(''update'',
            \<lparr>params = [\<lparr>param_name = ''state'', payload_name = ''state''\<rparr>,
                        \<lparr>param_name = ''enabled'', payload_name = ''enabled''\<rparr>],
             callback = Components_shim (Generated ''components update'')\<rparr>)])]
   \<and> (\<exists>v2 before.
         map_of sample_generated CURRENT_VERSION = Some v2
       \<and> map_of v2 ''sessions'' = Some before \<and> ''update'' \<in> fst ` set before)"
  (is "?run \<and> ?before")
proof -
  have run: ?run
    by (simp add: cfs_module_def setup_configuration_from_file_def patch_sessions_def
        setup_component_state_def sample_generated_def and_then_def getitem_def delitem_def
        option_def startswith_def list_insert_def CURRENT_VERSION_def GROUPS_PAYLOAD_def
        GROUP_MEMBERS_PAYLOAD_def GROUP_NAME_PAYLOAD_def Let_def)
  from sessions_update_removed [OF run] have ?before
    by blast
  with run show ?thesis by (rule conjI)
qed

end
